theory Spec2Isabelle
  imports Complex_Main
begin

section \<open>Z-score mean reversion strategy (project.py)\<close>

text \<open>
  The repository holds one strategy class, \<^verbatim>\<open>ZScoreMeanReversion\<close>, with two methods:
  \<^verbatim>\<open>init\<close> is to precompute the rolling mean, the rolling standard deviation and the
  z-scores of the closing prices; \<^verbatim>\<open>next\<close> is called once per bar and decides, from
  the position and the current z-score, whether to close, buy, sell or do nothing.

  The z-score that \<^verbatim>\<open>next\<close> reads is a Python float. The model keeps the three special
  float values (not-a-number and the two infinities) and represents every other float
  by a real number. The theorems below are about the comparisons that \<^verbatim>\<open>next\<close> makes,
  which are exact on floats; the rolling statistics themselves are not computed here:
  they are the work of the pandas library and enter as a parameter.
\<close>

subsection \<open>Float values\<close>

datatype pyfloat = NaN | NegInf | Num real | PosInf

text \<open>Comparisons: every comparison with NaN is false.\<close>

fun fle :: "pyfloat \<Rightarrow> pyfloat \<Rightarrow> bool" where
  "fle NaN _ = False"
| "fle _ NaN = False"
| "fle NegInf _ = True"
| "fle _ PosInf = True"
| "fle (Num a) (Num b) = (a \<le> b)"
| "fle PosInf _ = False"
| "fle _ NegInf = False"

definition fge :: "pyfloat \<Rightarrow> pyfloat \<Rightarrow> bool" where
  "fge a b = fle b a"

fun fneg :: "pyfloat \<Rightarrow> pyfloat" where
  "fneg NaN = NaN"
| "fneg NegInf = PosInf"
| "fneg (Num a) = Num (- a)"
| "fneg PosInf = NegInf"

fun fadd :: "pyfloat \<Rightarrow> pyfloat \<Rightarrow> pyfloat" where
  "fadd NaN _ = NaN"
| "fadd _ NaN = NaN"
| "fadd (Num a) (Num b) = Num (a + b)"
| "fadd PosInf NegInf = NaN"
| "fadd NegInf PosInf = NaN"
| "fadd PosInf _ = PosInf"
| "fadd NegInf _ = NegInf"
| "fadd _ PosInf = PosInf"
| "fadd _ NegInf = NegInf"

definition fsub :: "pyfloat \<Rightarrow> pyfloat \<Rightarrow> pyfloat" where
  "fsub a b = fadd a (fneg b)"

fun fmul :: "pyfloat \<Rightarrow> pyfloat \<Rightarrow> pyfloat" where
  "fmul NaN _ = NaN"
| "fmul _ NaN = NaN"
| "fmul (Num a) (Num b) = Num (a * b)"
| "fmul (Num a) PosInf = (if a = 0 then NaN else if 0 < a then PosInf else NegInf)"
| "fmul (Num a) NegInf = (if a = 0 then NaN else if 0 < a then NegInf else PosInf)"
| "fmul PosInf (Num b) = (if b = 0 then NaN else if 0 < b then PosInf else NegInf)"
| "fmul NegInf (Num b) = (if b = 0 then NaN else if 0 < b then NegInf else PosInf)"
| "fmul PosInf PosInf = PosInf"
| "fmul NegInf NegInf = PosInf"
| "fmul PosInf NegInf = NegInf"
| "fmul NegInf PosInf = NegInf"

text \<open>
  Array division as numpy performs it: dividing by zero raises nothing; \<open>0 / 0\<close> is
  NaN and a non-zero value over zero is an infinity with the sign of the numerator (the
  only divisor of the program is a standard deviation, a square root, so a zero divisor
  is the positive zero).
\<close>

fun fdiv :: "pyfloat \<Rightarrow> pyfloat \<Rightarrow> pyfloat" where
  "fdiv NaN _ = NaN"
| "fdiv _ NaN = NaN"
| "fdiv (Num a) (Num b) =
     (if b = 0 then (if a = 0 then NaN else if 0 < a then PosInf else NegInf)
      else Num (a / b))"
| "fdiv (Num a) PosInf = Num 0"
| "fdiv (Num a) NegInf = Num 0"
| "fdiv PosInf (Num b) = (if 0 \<le> b then PosInf else NegInf)"
| "fdiv NegInf (Num b) = (if 0 \<le> b then NegInf else PosInf)"
| "fdiv PosInf PosInf = NaN"
| "fdiv PosInf NegInf = NaN"
| "fdiv NegInf PosInf = NaN"
| "fdiv NegInf NegInf = NaN"

subsection \<open>Data\<close>

text \<open>One bar of the downloaded OHLCV frame; the strategy reads the \<open>Close\<close> column.\<close>

record bar =
  Open :: real
  High :: real
  Low :: real
  Close :: real
  Volume :: real

text \<open>The strategy parameters, class attributes of \<^verbatim>\<open>ZScoreMeanReversion\<close>.\<close>

record params =
  lookback :: int
  entry_z :: real
  exit_z :: real

definition default_params :: params where
  "default_params = \<lparr>lookback = 20, entry_z = 2.0, exit_z = 0.5\<rparr>"

text \<open>The attributes that \<^verbatim>\<open>init\<close> stores on the strategy object.\<close>

record strategy =
  rolling_mean :: "pyfloat list"
  rolling_std :: "pyfloat list"
  z_scores :: "pyfloat list"
  upper_band :: "pyfloat list"
  lower_band :: "pyfloat list"

datatype position = Flat | Long | Short

definition is_long :: "position \<Rightarrow> bool" where
  "is_long s = (s = Long)"

definition is_short :: "position \<Rightarrow> bool" where
  "is_short s = (s = Short)"

text \<open>The calls that \<^verbatim>\<open>next\<close> makes on the broker.\<close>

datatype call = Position_close | Buy | Sell

text \<open>
  The exceptions in reach of \<^verbatim>\<open>init\<close>: \<open>AttributeError\<close> when \<^verbatim>\<open>.rolling\<close> is asked of an
  object that has no such method, and \<open>ValueError\<close> for whatever pandas itself refuses
  (a negative window, for one).
\<close>

datatype error = AttributeError | ValueError

text \<open>
  Two kinds of column are in reach of \<^verbatim>\<open>init\<close>. \<^verbatim>\<open>self.data.Close\<close> is the array of the
  backtesting library, a numpy array, which has no method \<^verbatim>\<open>rolling\<close>; \<^verbatim>\<open>pd.Series(x)\<close>
  builds a pandas series from it, which has.
\<close>

datatype column = Ndarray "real list" | Series "real list"

fun pd_Series :: "column \<Rightarrow> column" where
  "pd_Series (Ndarray xs) = Series xs"
| "pd_Series (Series xs) = Series xs"

fun values_of :: "column \<Rightarrow> real list" where
  "values_of (Ndarray xs) = xs"
| "values_of (Series xs) = xs"

text \<open>The method \<^verbatim>\<open>rolling\<close>: a series has it, the library's array raises.\<close>

fun rolling :: "column \<Rightarrow> error + real list" where
  "rolling (Ndarray xs) = Inl AttributeError"
| "rolling (Series xs) = Inr xs"

text \<open>
  The rolling statistics of pandas over a series, for a window length: the library is
  not part of the repository, so the two operations that \<^verbatim>\<open>init\<close> asks of it are a
  parameter of the model.
\<close>

record pandas =
  pd_rolling_mean :: "real list \<Rightarrow> int \<Rightarrow> error + pyfloat list"
  pd_rolling_std :: "real list \<Rightarrow> int \<Rightarrow> error + pyfloat list"

subsection \<open>The strategy\<close>

text \<open>
  \<^verbatim>\<open>SMA(series, window)\<close> is \<^verbatim>\<open>series.rolling(window).mean()\<close>: it asks its argument for
  \<^verbatim>\<open>rolling\<close>, whatever the argument is.
\<close>

definition SMA :: "pandas \<Rightarrow> column \<Rightarrow> int \<Rightarrow> error + pyfloat list" where
  "SMA pd series window =
     (case rolling series of
        Inl e \<Rightarrow> Inl e
      | Inr xs \<Rightarrow> pd_rolling_mean pd xs window)"

text \<open>The second indicator of \<^verbatim>\<open>init\<close> wraps its argument first: \<^verbatim>\<open>pd.Series(x).rolling(...).std()\<close>.\<close>

definition rolling_std_of :: "pandas \<Rightarrow> params \<Rightarrow> column \<Rightarrow> error + pyfloat list" where
  "rolling_std_of pd p x =
     (case rolling (pd_Series x) of
        Inl e \<Rightarrow> Inl e
      | Inr xs \<Rightarrow> pd_rolling_std pd xs (lookback p))"

text \<open>
  \<^verbatim>\<open>init\<close>, line by line: the close column as the library hands it out, the two
  indicators, the z-scores and the two bands. An exception of an indicator ends it.
\<close>

definition strategy_init :: "pandas \<Rightarrow> params \<Rightarrow> bar list \<Rightarrow> error + strategy" where
  "strategy_init pd p data =
     (let close = Ndarray (map Close data) in
      case SMA pd close (lookback p) of
        Inl e \<Rightarrow> Inl e
      | Inr rm \<Rightarrow>
          (case rolling_std_of pd p close of
             Inl e \<Rightarrow> Inl e
           | Inr rs \<Rightarrow>
               Inr \<lparr>rolling_mean = rm,
                    rolling_std = rs,
                    z_scores = map2 fdiv (map2 fsub (map Num (values_of close)) rm) rs,
                    upper_band = map2 fadd rm (map (fmul (Num (entry_z p))) rs),
                    lower_band = map2 fsub rm (map (fmul (Num (entry_z p))) rs)\<rparr>))"

text \<open>
  \<^verbatim>\<open>next\<close>: the \<^verbatim>\<open>if\<close>/\<^verbatim>\<open>elif\<close> chain of the source, in its order. The result lists the
  broker calls the step makes.
\<close>

definition strategy_next :: "params \<Rightarrow> position \<Rightarrow> pyfloat \<Rightarrow> call list" where
  "strategy_next p s current_z =
     (if is_long s \<and> fge current_z (Num (- exit_z p)) then [Position_close]
      else if is_short s \<and> fle current_z (Num (exit_z p)) then [Position_close]
      else if fle current_z (Num (- entry_z p)) \<and> \<not> is_long s then [Buy]
      else if fge current_z (Num (entry_z p)) \<and> \<not> is_short s then [Sell]
      else [])"

subsection \<open>The broker and the simulation loop\<close>

text \<open>
  Modelled from the spec: the effect of a broker call on the position. The broker
  belongs to the backtesting library, which the repository only calls; section 4.2 of
  the specification gives the effect: a close leads to Flat, a buy to Long, a sell to
  Short.
\<close>

fun apply_call :: "position \<Rightarrow> call \<Rightarrow> position" where
  "apply_call s Position_close = Flat"
| "apply_call s Buy = Long"
| "apply_call s Sell = Short"

definition step :: "params \<Rightarrow> position \<Rightarrow> pyfloat \<Rightarrow> position" where
  "step p s z = foldl apply_call s (strategy_next p s z)"

text \<open>
  Modelled from the spec: the loop of the library, which calls \<^verbatim>\<open>next\<close> once per bar
  in ascending order with the z-score of that bar. Each element of the result holds
  the calls made at a bar and the position after it.
\<close>

fun simulate :: "params \<Rightarrow> position \<Rightarrow> pyfloat list \<Rightarrow> (call list \<times> position) list" where
  "simulate p s [] = []"
| "simulate p s (z # zs) =
     (strategy_next p s z, step p s z) # simulate p (step p s z) zs"

subsection \<open>The transition rule as section 4.2 of the specification words it\<close>

text \<open>
  The specification's z-score is a real number or undefined, and its rule list names a
  target state for each of five rules. \<open>spec_rule\<close> gives the number of the rule that
  applies and \<open>spec_target\<close> the state it leads to.
\<close>

fun spec_rule :: "params \<Rightarrow> position \<Rightarrow> real option \<Rightarrow> nat" where
  "spec_rule p s None = 5"
| "spec_rule p s (Some z) =
     (if s = Long \<and> z \<ge> - exit_z p then 1
      else if s = Short \<and> z \<le> exit_z p then 2
      else if z \<le> - entry_z p \<and> s \<noteq> Long then 3
      else if z \<ge> entry_z p \<and> s \<noteq> Short then 4
      else 5)"

definition spec_target :: "position \<Rightarrow> nat \<Rightarrow> position" where
  "spec_target s r =
     (if r = 1 then Flat else if r = 2 then Flat else if r = 3 then Long
      else if r = 4 then Short else s)"

definition spec_calls :: "nat \<Rightarrow> call list" where
  "spec_calls r =
     (if r = 1 then [Position_close] else if r = 2 then [Position_close]
      else if r = 3 then [Buy] else if r = 4 then [Sell] else [])"

definition float_of :: "real option \<Rightarrow> pyfloat" where
  "float_of z = (case z of None \<Rightarrow> NaN | Some r \<Rightarrow> Num r)"

subsection \<open>Example inputs\<close>

text \<open>The positions of a simulation from \<open>s\<close>: the start and the position after each bar.\<close>

definition position_trace :: "position \<Rightarrow> (call list \<times> position) list \<Rightarrow> position list" where
  "position_trace s run = s # map snd run"

text \<open>A bar whose four prices all equal \<open>c\<close>.\<close>

definition bar_at :: "real \<Rightarrow> bar" where
  "bar_at c = \<lparr>Open = c, High = c, Low = c, Close = c, Volume = 1000\<rparr>"

text \<open>
  Z-scores of a sharp drop and a recovery: undefined at first, \<open>-2\<close> at the fall,
  \<open>1/2\<close> after it.
\<close>

definition dip_scores :: "pyfloat list" where
  "dip_scores = [NaN, Num (- 2), Num (1 / 2)]"

text \<open>A constant series, with a window of two bars.\<close>

definition flat_params :: params where
  "flat_params = default_params\<lparr>lookback := 2\<rparr>"

definition flat_series :: "bar list" where
  "flat_series = [bar_at 100, bar_at 100, bar_at 100]"



section \<open>Properties\<close>

subsection \<open>Auxiliary facts\<close>

lemma next_outcomes:
  "strategy_next p s z = [] \<or> strategy_next p s z = [Position_close]
   \<or> strategy_next p s z = [Buy] \<or> strategy_next p s z = [Sell]"
  by (simp add: strategy_next_def)

lemma step_from_Long: "- entry_z p \<le> exit_z p \<Longrightarrow> step p Long z \<noteq> Short"
  by (cases z)
    (auto simp add: strategy_next_def step_def fge_def is_long_def is_short_def
      split: if_splits)

lemma step_from_Short: "- entry_z p \<le> exit_z p \<Longrightarrow> step p Short z \<noteq> Long"
  by (cases z)
    (auto simp add: strategy_next_def step_def fge_def is_long_def is_short_def
      split: if_splits)

lemma simulate_no_reversal:
  assumes thr: "- entry_z p \<le> exit_z p"
  shows "Suc i < length (s # map snd (simulate p s zs)) \<Longrightarrow>
    \<not> ((s # map snd (simulate p s zs)) ! i = Long
        \<and> (s # map snd (simulate p s zs)) ! Suc i = Short)
    \<and> \<not> ((s # map snd (simulate p s zs)) ! i = Short
        \<and> (s # map snd (simulate p s zs)) ! Suc i = Long)"
proof (induction zs arbitrary: s i)
  case Nil
  then show ?case by simp
next
  case (Cons z zs)
  show ?case
  proof (cases i)
    case 0
    then show ?thesis
      using step_from_Long [OF thr, of z] step_from_Short [OF thr, of z] by auto
  next
    case (Suc j)
    then show ?thesis
      using Cons.IH [of j "step p s z"] Cons.prems by simp
  qed
qed

lemma default_thresholds: "- entry_z default_params \<le> exit_z default_params"
  by (simp add: default_params_def)

text \<open>
  The condition on the thresholds cannot be dropped: with \<open>exit_z < - entry_z\<close> a
  z-score between the two makes \<^verbatim>\<open>next\<close> buy while the position is Short.
\<close>

lemma reversal_with_crossed_thresholds:
  "strategy_next \<lparr>lookback = 20, entry_z = 2, exit_z = - 3\<rparr> Short (Num (- 5 / 2)) = [Buy]"
  by (simp add: strategy_next_def fge_def is_long_def is_short_def)

text \<open>
  \<^verbatim>\<open>init\<close> never returns: its first indicator calls \<^verbatim>\<open>SMA\<close> on the library's array, and
  \<^verbatim>\<open>SMA\<close> asks that array for \<^verbatim>\<open>rolling\<close>. This holds for every parameter setting, every
  price series and every pandas.
\<close>

lemma init_raises: "strategy_init pd p data = Inl AttributeError"
  by (simp add: strategy_init_def SMA_def)

text \<open>On a pandas series \<^verbatim>\<open>SMA\<close> is the rolling mean of the library.\<close>

lemma SMA_on_Series: "SMA pd (pd_Series x) w = pd_rolling_mean pd (values_of x) w"
  by (cases x) (simp_all add: SMA_def)

lemma rolling_std_of_returns:
  "rolling_std_of pd p x = pd_rolling_std pd (values_of x) (lookback p)"
  by (cases x) (simp_all add: rolling_std_of_def)

subsection \<open>The position state machine\<close>

text \<open>
  C1. For every sequence of z-scores that the bars of a price series can give, and every
  step of the simulation over it, the position is one of Flat, Long and Short, and no
  step leads from Long to Short or from Short to Long: a reversal needs a step to Flat
  in between. The thresholds are those of the program (2.0 and 0.5) or any others with
  \<open>- entry_z \<le> exit_z\<close>, which every pair of positive thresholds satisfies.
\<close>

theorem no_direct_reversal:
  assumes "- entry_z p \<le> exit_z p"
    and "Suc i < length (position_trace s (simulate p s zs))"
  shows "position_trace s (simulate p s zs) ! i \<in> {Flat, Long, Short}
    \<and> \<not> (position_trace s (simulate p s zs) ! i = Long
         \<and> position_trace s (simulate p s zs) ! Suc i = Short)
    \<and> \<not> (position_trace s (simulate p s zs) ! i = Short
         \<and> position_trace s (simulate p s zs) ! Suc i = Long)"
proof -
  have "position_trace s (simulate p s zs) ! i \<in> {Flat, Long, Short}"
    by (cases "position_trace s (simulate p s zs) ! i") simp_all
  then show ?thesis
    using simulate_no_reversal [OF assms(1), of i s zs] assms(2)
    by (simp add: position_trace_def)
qed

theorem no_direct_reversal_witness:
  "- entry_z default_params \<le> exit_z default_params
   \<and> Suc 2 < length (position_trace Flat (simulate default_params Flat dip_scores))
   \<and> position_trace Flat (simulate default_params Flat dip_scores) = [Flat, Flat, Long, Flat]
   \<and> \<not> (position_trace Flat (simulate default_params Flat dip_scores) ! 2 = Long
        \<and> position_trace Flat (simulate default_params Flat dip_scores) ! Suc 2 = Short)"
  using no_direct_reversal [of default_params 2 Flat dip_scores]
  by (simp add: default_params_def dip_scores_def position_trace_def strategy_next_def
      step_def fge_def is_long_def is_short_def)

text \<open>
  C2. At every step \<^verbatim>\<open>next\<close> applies the five rules of section 4.2 in their order, exit
  checks first: for every state and every z-score, defined or not, the calls it makes
  and the position it leads to are those of the one rule that the rule list selects,
  and it makes at most one call.
\<close>

theorem next_follows_rule_list:
  "strategy_next p s (float_of z) = spec_calls (spec_rule p s z)
   \<and> step p s (float_of z) = spec_target s (spec_rule p s z)
   \<and> length (strategy_next p s (float_of z)) \<le> 1"
  by (cases z; cases s)
    (simp_all add: strategy_next_def step_def float_of_def spec_calls_def
      spec_target_def fge_def is_long_def is_short_def)

text \<open>
  C3. Whenever the z-score is undefined, which for the program is the float NaN,
  \<^verbatim>\<open>next\<close> makes no call, neither close nor buy nor sell, and the position after the
  step is the position before it, whatever that position and the parameters are.
\<close>

theorem undefined_z_holds:
  "strategy_next p s NaN = [] \<and> step p s NaN = s
   \<and> simulate p s [NaN] = [([], s)]"
  by (simp add: strategy_next_def step_def fge_def)

text \<open>
  C8. No step both closes a position and opens one: when \<^verbatim>\<open>next\<close> calls
  \<^verbatim>\<open>position.close()\<close> it calls neither \<^verbatim>\<open>buy()\<close> nor \<^verbatim>\<open>sell()\<close> in that step, and the
  step ends Flat.
\<close>

theorem close_excludes_entry:
  assumes "Position_close \<in> set (strategy_next p s z)"
  shows "Buy \<notin> set (strategy_next p s z) \<and> Sell \<notin> set (strategy_next p s z)
    \<and> step p s z = Flat"
  using assms next_outcomes [of p s z] by (auto simp add: step_def)

theorem close_excludes_entry_witness:
  "Position_close \<in> set (strategy_next default_params Long (Num 0))
   \<and> Buy \<notin> set (strategy_next default_params Long (Num 0))
   \<and> Sell \<notin> set (strategy_next default_params Long (Num 0))
   \<and> step default_params Long (Num 0) = Flat"
  using close_excludes_entry [of default_params Long "Num 0"]
  by (simp add: default_params_def strategy_next_def fge_def is_long_def)

text \<open>
  C9. The step function is total and exclusive: for every position and every z-score
  (finite, infinite or NaN) \<^verbatim>\<open>next\<close> does exactly one of four things: nothing, one
  close, one buy or one sell.
\<close>

theorem next_total_exclusive:
  "strategy_next p s z \<in> {[], [Position_close], [Buy], [Sell]}
   \<and> length (strategy_next p s z) \<le> 1
   \<and> step p s z \<in> {s, Flat, Long, Short}"
  using next_outcomes [of p s z] by (auto simp add: step_def)

subsection \<open>The signal engine\<close>

text \<open>
  C6, on the code. On a constant price series the program computes no rolling standard
  deviation and no z-score at all: \<^verbatim>\<open>init\<close> raises at its first indicator. The series
  here has three bars at 100 and the window is two bars.
\<close>

theorem constant_series_init_raises:
  "strategy_init pd flat_params flat_series = Inl AttributeError"
  by (rule init_raises)

subsection \<open>Parameters\<close>



end
